theory Spec2Isabelle
  imports Complex_Main "HOL-Library.Sublist" "HOL-Library.AList"
begin

section \<open>Python values: errors, strings, numbers\<close>

text \<open>
  The exceptions that the modelled functions can raise. A raising call is the value
  \<open>Inl e\<close>, a returning call is \<open>Inr v\<close>.
\<close>

datatype error =
    OverflowError
  | ZeroDivisionError
  | ValueError
  | JSONDecodeError
  | RecursionError
  | Exception string

subsection \<open>Strings\<close>

text \<open>
  A Python \<open>str\<close> is modelled as a \<open>string\<close>. \<open>upper\<close> is \<open>str.upper\<close> on ASCII text:
  it maps the letters a to z and leaves every other character as it is. \<open>str.lower\<close> is
  the library's Unicode lower-casing and is a parameter, \<open>str_lower\<close>, of every function
  that calls it; \<open>lower\<close> is its restriction to ASCII text, used where a statement is
  evaluated on ASCII text.
\<close>

definition upper_char :: "char \<Rightarrow> char" where
  "upper_char c =
     (case map_of (zip ''abcdefghijklmnopqrstuvwxyz'' ''ABCDEFGHIJKLMNOPQRSTUVWXYZ'') c of
        Some u \<Rightarrow> u | None \<Rightarrow> c)"

definition lower_char :: "char \<Rightarrow> char" where
  "lower_char c =
     (case map_of (zip ''ABCDEFGHIJKLMNOPQRSTUVWXYZ'' ''abcdefghijklmnopqrstuvwxyz'') c of
        Some l \<Rightarrow> l | None \<Rightarrow> c)"

definition upper :: "string \<Rightarrow> string" where
  "upper s = map upper_char s"

definition lower :: "string \<Rightarrow> string" where
  "lower s = map lower_char s"

text \<open>\<open>needle in hay\<close> on strings: \<open>needle\<close> occurs in \<open>hay\<close> as a contiguous block.\<close>

definition py_in :: "string \<Rightarrow> string \<Rightarrow> bool" where
  "py_in needle hay = sublist needle hay"

text \<open>\<open>s.replace(' ', '_')\<close>\<close>

definition replace_space :: "string \<Rightarrow> string" where
  "replace_space s = map (\<lambda>c. if c = CHR '' '' then CHR ''_'' else c) s"

text \<open>\<open>' '.join(xs)\<close>\<close>

fun join_space :: "string list \<Rightarrow> string" where
  "join_space [] = []"
| "join_space [x] = x"
| "join_space (x # y # ys) = x @ '' '' @ join_space (y # ys)"

text \<open>\<open>str(n)\<close> for an integer, as the f-strings of the source format it.\<close>

definition digit_char :: "nat \<Rightarrow> char" where
  "digit_char n = ''0123456789'' ! (n mod 10)"

fun str_nat :: "nat \<Rightarrow> string" where
  "str_nat n = (if n < 10 then [digit_char n] else str_nat (n div 10) @ [digit_char n])"

definition str_int :: "int \<Rightarrow> string" where
  "str_int i = (if i < 0 then ''-'' @ str_nat (nat (- i)) else str_nat (nat i))"

subsection \<open>Floating point\<close>

text \<open>
  A finite Python \<open>float\<close> is an IEEE 754 binary64 number, modelled as the real number it
  denotes. Every arithmetic operation returns the exact result rounded to the nearest
  binary64 number, ties to the even significand. \<open>ilog2 x\<close> is the binary exponent of a
  positive \<open>x\<close>, \<open>quantum x\<close> the spacing of the binary64 numbers around \<open>x\<close> (53 significant
  bits, the exponent not below that of the subnormal numbers), and a result that rounds
  to \<open>2 ^ 1024\<close> or more is an overflow, \<open>None\<close>.
\<close>

definition pow2 :: "int \<Rightarrow> real" where
  "pow2 e = (if 0 \<le> e then 2 ^ nat e else 1 / 2 ^ nat (- e))"

function ilog2 :: "real \<Rightarrow> int" where
  "ilog2 x = (if x \<le> 0 then 0
              else if 2 \<le> x then ilog2 (x / 2) + 1
              else if x < 1 then ilog2 (x * 2) - 1
              else 0)"
  by pat_completeness auto
termination
proof (relation "measure (\<lambda>x. nat \<lceil>x\<rceil> + 2 * nat \<lceil>1 / x\<rceil>)")
  show "wf (measure (\<lambda>x::real. nat \<lceil>x\<rceil> + 2 * nat \<lceil>1 / x\<rceil>))" by simp
next
  fix x :: real
  assume a: "\<not> x \<le> 0" "2 \<le> x"
  have "\<lceil>x / 2\<rceil> \<le> \<lceil>x - 1\<rceil>" using a by (intro ceiling_mono) simp
  hence 1: "\<lceil>x / 2\<rceil> < \<lceil>x\<rceil>" by simp
  have 2: "\<lceil>1 / (x / 2)\<rceil> = 1" using a by (simp add: ceiling_eq_iff)
  have 3: "\<lceil>1 / x\<rceil> = 1" using a by (simp add: ceiling_eq_iff)
  have 4: "0 < \<lceil>x\<rceil>" using a by simp
  show "(x / 2, x) \<in> measure (\<lambda>x. nat \<lceil>x\<rceil> + 2 * nat \<lceil>1 / x\<rceil>)"
    using 1 2 3 4 by simp
next
  fix x :: real
  assume a: "\<not> x \<le> 0" "\<not> 2 \<le> x" "x < 1"
  have 1: "\<lceil>x\<rceil> = 1" using a by (simp add: ceiling_eq_iff)
  have 2: "\<lceil>x * 2\<rceil> \<le> 2" using a by (simp add: ceiling_le_iff)
  have y: "1 < 1 / x" using a by simp
  hence c2: "2 \<le> \<lceil>1 / x\<rceil>" by linarith
  have "1 / (x * 2) = (1 / x) / 2" by simp
  also have "\<dots> \<le> of_int \<lceil>1 / x\<rceil> / 2" by (simp add: divide_right_mono)
  also have "\<dots> \<le> of_int (\<lceil>1 / x\<rceil> - 1)" using c2 by simp
  finally have "\<lceil>1 / (x * 2)\<rceil> \<le> \<lceil>1 / x\<rceil> - 1" by (simp only: ceiling_le_iff)
  hence 3: "\<lceil>1 / (x * 2)\<rceil> < \<lceil>1 / x\<rceil>" by simp
  have 4: "0 < \<lceil>1 / (x * 2)\<rceil>" using a by simp
  define c where "c = \<lceil>1 / x\<rceil>"
  define c' where "c' = \<lceil>1 / (x * 2)\<rceil>"
  define t where "t = \<lceil>x * 2\<rceil>"
  have "nat t + 2 * nat c' < nat 1 + 2 * nat c"
    using 2 3 4 c2 unfolding c_def c'_def t_def by arith
  thus "(x * 2, x) \<in> measure (\<lambda>x. nat \<lceil>x\<rceil> + 2 * nat \<lceil>1 / x\<rceil>)"
    unfolding c_def c'_def t_def using 1 by simp
qed

declare ilog2.simps [simp del]

text \<open>Rounding to the nearest integer, a tie going to the even neighbour.\<close>

definition tie_to_even :: "real \<Rightarrow> int \<Rightarrow> int" where
  "tie_to_even y f =
     (if y - of_int f < 1 / 2 then f
      else if 1 / 2 < y - of_int f then f + 1
      else if even f then f else f + 1)"

definition round_half_even :: "real \<Rightarrow> int" where
  "round_half_even y = tie_to_even y \<lfloor>y\<rfloor>"

text \<open>The spacing of the binary64 numbers around a positive \<open>a\<close>.\<close>

definition quantum :: "real \<Rightarrow> real" where
  "quantum a = pow2 (max (ilog2 a) (- 1022) - 52)"

text \<open>The multiple of \<open>q\<close> nearest to \<open>a\<close>.\<close>

definition nearest_multiple :: "real \<Rightarrow> real \<Rightarrow> real" where
  "nearest_multiple q a = of_int (round_half_even (a / q)) * q"

definition double_limit :: real where
  "double_limit = 2 ^ 1024"

definition finite_or_overflow :: "real \<Rightarrow> real \<Rightarrow> real option" where
  "finite_or_overflow s r = (if double_limit \<le> r then None else Some (s * r))"

definition round_to_double :: "real \<Rightarrow> real option" where
  "round_to_double x =
     (if x = 0 then Some 0
      else finite_or_overflow (sgn x) (nearest_multiple (quantum \<bar>x\<bar>) \<bar>x\<bar>))"

text \<open>
  \<open>a / b\<close> on two Python integers: the exact quotient, correctly rounded. A zero divisor
  raises \<open>ZeroDivisionError\<close>, a quotient too large for a float raises \<open>OverflowError\<close>.
\<close>

definition py_truediv :: "int \<Rightarrow> int \<Rightarrow> error + real" where
  "py_truediv a b =
     (if b = 0 then Inl ZeroDivisionError
      else case round_to_double (of_int a / of_int b) of
             None \<Rightarrow> Inl OverflowError
           | Some q \<Rightarrow> Inr q)"

text \<open>\<open>x * y\<close> on two finite floats; \<open>None\<close> is an infinite result.\<close>

definition float_mul :: "real \<Rightarrow> real \<Rightarrow> real option" where
  "float_mul x y = round_to_double (x * y)"

text \<open>\<open>round(x)\<close> of a finite float, with one argument: an integer, ties to even.\<close>

definition py_round :: "real \<Rightarrow> int" where
  "py_round x = round_half_even x"

text \<open>The float literals of the source: the binary64 numbers nearest to the decimals.\<close>

definition lit_0_8 :: real where
  "lit_0_8 = 3602879701896397 / 4503599627370496"

definition lit_1_3 :: real where
  "lit_1_3 = 5854679515581645 / 4503599627370496"

definition lit_1_6 :: real where
  "lit_1_6 = 3602879701896397 / 2251799813685248"

section \<open>The data model\<close>

record technical_requirements =
  programming_languages :: "string list option"
  frameworks :: "string list option"
  hardware :: "string list option"
  datasets :: "string list option"

text \<open>
  The analysis dictionary. Every key may be absent (\<open>None\<close>); the planner reads each one
  with \<open>dict.get\<close> and a default.
\<close>

record analysis =
  title :: "string option"
  authors :: "string option"
  abstract :: "string option"
  domain :: "string option"
  research_type :: "string option"
  year :: "string option"
  complexity :: "string option"
  key_concepts :: "string list option"
  methodologies :: "string list option"
  tech_requirements :: "technical_requirements option"
  applications :: "string list option"
  challenges :: "string list option"
  future_work :: "string list option"

record project_settings =
  duration :: "int option"
  team_size :: "int option"
  settings_complexity :: "string option"

record phase_template =
  pt_name :: string
  base_duration :: int
  pt_objectives :: string
  core_tasks :: "string list"

record phase =
  ph_name :: string
  ph_duration :: string
  start_month :: int
  end_month :: int
  objectives :: string
  tasks :: "string list"
  deliverables :: "string list"
  success_criteria :: "string list"

text \<open>\<open>d.get(key, default)\<close>\<close>

definition get_default :: "'a option \<Rightarrow> 'a \<Rightarrow> 'a" where
  "get_default v d = (case v of None \<Rightarrow> d | Some x \<Rightarrow> x)"

record risk_entry =
  risk :: string
  mitigation :: string

record milestone =
  ms_name :: string
  ms_month :: int
  ms_description :: string

record timeline =
  total_duration :: string
  start_date :: string
  estimated_end_date :: string
  milestones :: "milestone list"

record project_overview =
  po_title :: string
  po_domain :: string
  po_complexity :: string
  estimated_duration :: string
  po_team_size :: int
  generated_date :: string

record project_plan =
  overview :: project_overview
  phases :: "phase list"
  technical_stack :: "(string \<times> string list) list"
  architecture :: "(string \<times> string) list"
  resources :: "(string \<times> string) list"
  risks :: "risk_entry list"
  success_metrics :: "(string \<times> string list) list"
  plan_timeline :: timeline

text \<open>
  A Python dictionary whose order of keys matters is an association list: a new key goes
  to the end, an assignment to an existing key keeps its place (\<open>AList.update\<close>).
\<close>

section \<open>The plan generator (\<open>project_planner.py\<close>)\<close>

subsection \<open>\<open>_load_phase_templates\<close>\<close>

definition nlp_template :: "phase_template list" where
  "nlp_template =
    [\<lparr>pt_name = ''Foundation and Setup'',
      base_duration = 3,
      pt_objectives = ''Establish theoretical understanding and development environment'',
      core_tasks =
        [''Set up development environment'',
         ''Literature review'',
         ''Dataset preparation'',
         ''Basic NLP understanding'']\<rparr>,
     \<lparr>pt_name = ''Core Component Development'',
      base_duration = 6,
      pt_objectives = ''Build fundamental NLP processing capabilities'',
      core_tasks =
        [''Text preprocessing pipeline'',
         ''Basic NLP models'',
         ''Feature extraction'',
         ''Initial testing'']\<rparr>,
     \<lparr>pt_name = ''Advanced Implementation'',
      base_duration = 4,
      pt_objectives = ''Implement state-of-the-art approaches'',
      core_tasks =
        [''Neural network implementation'',
         ''Advanced model training'',
         ''Optimization'',
         ''Performance tuning'']\<rparr>,
     \<lparr>pt_name = ''Application Development'',
      base_duration = 4,
      pt_objectives = ''Create practical applications'',
      core_tasks =
        [''User interface development'',
         ''Application logic'',
         ''Integration testing'',
         ''User experience optimization'']\<rparr>,
     \<lparr>pt_name = ''Evaluation and Deployment'',
      base_duration = 3,
      pt_objectives = ''Testing, optimization, and deployment'',
      core_tasks =
        [''Comprehensive evaluation'',
         ''Performance optimization'',
         ''Documentation'',
         ''Deployment'']\<rparr>]"

definition computer_vision_template :: "phase_template list" where
  "computer_vision_template =
    [\<lparr>pt_name = ''Environment and Data Setup'',
      base_duration = 3,
      pt_objectives = ''Prepare development environment and datasets'',
      core_tasks =
        [''Development environment setup'',
         ''Image dataset collection'',
         ''Data preprocessing'',
         ''Baseline model research'']\<rparr>,
     \<lparr>pt_name = ''Model Development'',
      base_duration = 6,
      pt_objectives = ''Implement core computer vision models'',
      core_tasks =
        [''Image preprocessing pipeline'',
         ''CNN architecture implementation'',
         ''Model training'',
         ''Initial evaluation'']\<rparr>,
     \<lparr>pt_name = ''Advanced Techniques'',
      base_duration = 4,
      pt_objectives = ''Implement advanced computer vision techniques'',
      core_tasks =
        [''Transfer learning'',
         ''Data augmentation'',
         ''Advanced architectures'',
         ''Performance optimization'']\<rparr>,
     \<lparr>pt_name = ''Application Integration'',
      base_duration = 4,
      pt_objectives = ''Build practical applications'',
      core_tasks =
        [''Real-time processing'',
         ''User interface'',
         ''API development'',
         ''System integration'']\<rparr>,
     \<lparr>pt_name = ''Testing and Deployment'',
      base_duration = 3,
      pt_objectives = ''Final testing and deployment'',
      core_tasks =
        [''Performance testing'',
         ''User acceptance testing'',
         ''Production deployment'',
         ''Monitoring setup'']\<rparr>]"

definition machine_learning_template :: "phase_template list" where
  "machine_learning_template =
    [\<lparr>pt_name = ''Data and Environment Preparation'',
      base_duration = 3,
      pt_objectives = ''Setup and data understanding'',
      core_tasks =
        [''Environment configuration'',
         ''Data collection and exploration'',
         ''Feature engineering'',
         ''Data quality assessment'']\<rparr>,
     \<lparr>pt_name = ''Model Development'',
      base_duration = 6,
      pt_objectives = ''Develop and train ML models'',
      core_tasks =
        [''Algorithm selection'',
         ''Model implementation'',
         ''Training and validation'',
         ''Hyperparameter tuning'']\<rparr>,
     \<lparr>pt_name = ''Advanced Modeling'',
      base_duration = 4,
      pt_objectives = ''Implement advanced ML techniques'',
      core_tasks =
        [''Ensemble methods'',
         ''Deep learning integration'',
         ''Model optimization'',
         ''Cross-validation'']\<rparr>,
     \<lparr>pt_name = ''System Integration'',
      base_duration = 4,
      pt_objectives = ''Build production system'',
      core_tasks =
        [''API development'',
         ''Database integration'',
         ''Real-time prediction'',
         ''System architecture'']\<rparr>,
     \<lparr>pt_name = ''Production and Monitoring'',
      base_duration = 3,
      pt_objectives = ''Deploy and monitor system'',
      core_tasks =
        [''Production deployment'',
         ''Performance monitoring'',
         ''Model maintenance'',
         ''Documentation'']\<rparr>]"

definition phase_templates :: "(string \<times> phase_template list) list" where
  "phase_templates =
    [(''NLP'', nlp_template),
     (''Computer Vision'', computer_vision_template),
     (''Machine Learning'', machine_learning_template)]"


subsection \<open>\<open>_customize_phase_tasks\<close>\<close>

text \<open>
  The two loops append to the list they test: each step sees the tasks appended before
  it. The test is made on the text of all current tasks joined by single spaces.
\<close>

definition add_concept_task ::
  "(string \<Rightarrow> string) \<Rightarrow> string list \<Rightarrow> string \<Rightarrow> string list" where
  "add_concept_task str_lower customized_tasks concept =
     (if \<not> py_in (str_lower concept) (str_lower (join_space customized_tasks))
      then customized_tasks @ [''Implement '' @ concept @ '' functionality'']
      else customized_tasks)"

definition add_framework_task ::
  "(string \<Rightarrow> string) \<Rightarrow> string list \<Rightarrow> string \<Rightarrow> string list" where
  "add_framework_task str_lower customized_tasks framework =
     (if \<not> py_in (str_lower framework) (str_lower (join_space customized_tasks))
      then customized_tasks @ [''Integrate '' @ framework @ '' framework'']
      else customized_tasks)"

text \<open>\<open>analysis.get('technical_requirements', {}).get('frameworks', [])\<close>\<close>

definition analysis_frameworks :: "analysis \<Rightarrow> string list" where
  "analysis_frameworks a =
     (case tech_requirements a of
        None \<Rightarrow> []
      | Some tr \<Rightarrow> get_default (frameworks tr) [])"

definition customize_phase_tasks ::
  "(string \<Rightarrow> string) \<Rightarrow> string list \<Rightarrow> analysis \<Rightarrow> string \<Rightarrow> string list" where
  "customize_phase_tasks str_lower base_tasks a phase_name =
     foldl (add_framework_task str_lower)
       (foldl (add_concept_task str_lower) base_tasks (take 3 (get_default (key_concepts a) [])))
       (take 2 (analysis_frameworks a))"

subsection \<open>\<open>_generate_phase_deliverables\<close> and \<open>_generate_success_criteria\<close>\<close>

definition base_deliverables :: "(string \<times> string list) list" where
  "base_deliverables =
    [(''Foundation and Setup'',
      [''Development environment setup'',
       ''Literature review document'',
       ''Dataset preparation report'',
       ''Technical specification document'']),
     (''Core Component Development'',
      [''Core processing pipeline'',
       ''Basic model implementations'',
       ''Initial testing results'',
       ''Performance baseline report'']),
     (''Advanced Implementation'',
      [''Advanced model implementations'',
       ''Optimization results'',
       ''Performance improvement report'',
       ''Technical documentation'']),
     (''Application Development'',
      [''User interface prototype'',
       ''Application backend'',
       ''Integration testing report'',
       ''User documentation'']),
     (''Evaluation and Deployment'',
      [''Final evaluation report'',
       ''Optimized production system'',
       ''Deployment documentation'',
       ''User manual''])]"

definition base_criteria :: "(string \<times> string list) list" where
  "base_criteria =
    [(''Foundation and Setup'',
      [''Functional development environment'',
       ''Complete dataset preparation'',
       ''Clear project roadmap'']),
     (''Core Component Development'',
      [''Working core components'',
       ''Baseline performance achieved'',
       ''Successful initial testing'']),
     (''Advanced Implementation'',
      [''Improved model performance'',
       ''Optimization targets met'',
       ''Advanced features implemented'']),
     (''Application Development'',
      [''Functional user interface'',
       ''Complete application features'',
       ''User acceptance testing passed'']),
     (''Evaluation and Deployment'',
      [''Performance targets achieved'',
       ''Successful deployment'',
       ''Complete documentation''])]"

definition generate_phase_deliverables :: "string \<Rightarrow> analysis \<Rightarrow> string list" where
  "generate_phase_deliverables phase_name a =
     (let deliverables = get_default (map_of base_deliverables phase_name) [''Phase deliverables''];
          dmn = get_default (domain a) ''''
      in if py_in ''NLP'' (upper dmn) then
           (if py_in ''Core'' phase_name
            then deliverables @ [''Text preprocessing pipeline'', ''Language model implementation'']
            else deliverables)
         else if py_in ''Vision'' (upper dmn) then
           (if py_in ''Core'' phase_name
            then deliverables @ [''Image preprocessing pipeline'', ''Computer vision model'']
            else deliverables)
         else deliverables)"

definition generate_success_criteria :: "string \<Rightarrow> analysis \<Rightarrow> string list" where
  "generate_success_criteria phase_name a =
     (let criteria = get_default (map_of base_criteria phase_name) [''Phase objectives met''];
          c = get_default (complexity a) ''Intermediate''
      in if c = ''Advanced'' then criteria @ [''Advanced performance benchmarks achieved'']
         else if c = ''Expert'' then criteria @ [''State-of-the-art performance achieved'']
         else criteria)"

subsection \<open>\<open>_generate_phases\<close>\<close>

definition complexity_multiplier :: "string \<Rightarrow> real" where
  "complexity_multiplier c =
     (if c = ''Beginner'' then lit_0_8
      else if c = ''Intermediate'' then 1
      else if c = ''Advanced'' then lit_1_3
      else if c = ''Expert'' then lit_1_6
      else 1)"

definition template_key :: "string \<Rightarrow> string" where
  "template_key dmn =
     (if py_in ''NLP'' (upper dmn) \<or> py_in ''NATURAL LANGUAGE'' (upper dmn) then ''NLP''
      else if py_in ''VISION'' (upper dmn) \<or> py_in ''IMAGE'' (upper dmn) then ''Computer Vision''
      else ''Machine Learning'')"

definition base_phases :: "analysis \<Rightarrow> phase_template list" where
  "base_phases a =
     get_default
       (map_of phase_templates (template_key (get_default (domain a) ''Machine Learning'')))
       machine_learning_template"

text \<open>
  \<open>max(1, round(base_duration * duration_multiplier * complexity_multiplier))\<close>: the
  integer \<open>base_duration\<close> becomes a float without rounding (the templates hold small
  integers), the two products are rounded one after the other, left to right. A product
  that overflows is infinite, stays infinite under the second product, and \<open>round\<close> of an
  infinite float raises \<open>OverflowError\<close>.
\<close>

definition adjusted_duration :: "int \<Rightarrow> real \<Rightarrow> real \<Rightarrow> error + int" where
  "adjusted_duration b duration_multiplier cm =
     (case float_mul (of_int b) duration_multiplier of
        None \<Rightarrow> Inl OverflowError
      | Some p \<Rightarrow>
          (case float_mul p cm of
             None \<Rightarrow> Inl OverflowError
           | Some v \<Rightarrow> Inr (max 1 (py_round v))))"

text \<open>The loop over the templates; \<open>current_month\<close> is the loop's running variable.\<close>

fun build_phases ::
  "(string \<Rightarrow> string) \<Rightarrow> analysis \<Rightarrow> real \<Rightarrow> real \<Rightarrow> int \<Rightarrow> phase_template list \<Rightarrow>
     error + phase list" where
  "build_phases str_lower a dm cm current_month [] = Inr []"
| "build_phases str_lower a dm cm current_month (t # ts) =
     (case adjusted_duration (base_duration t) dm cm of
        Inl e \<Rightarrow> Inl e
      | Inr adjusted \<Rightarrow>
          (case build_phases str_lower a dm cm (current_month + adjusted) ts of
             Inl e \<Rightarrow> Inl e
           | Inr ps \<Rightarrow>
               Inr (\<lparr>ph_name = pt_name t,
                     ph_duration = str_int adjusted @ '' months'',
                     start_month = current_month,
                     end_month = current_month + adjusted - 1,
                     objectives = pt_objectives t,
                     tasks = customize_phase_tasks str_lower (core_tasks t) a (pt_name t),
                     deliverables = generate_phase_deliverables (pt_name t) a,
                     success_criteria = generate_success_criteria (pt_name t) a\<rparr> # ps)))"

definition generate_phases ::
  "(string \<Rightarrow> string) \<Rightarrow> analysis \<Rightarrow> int \<Rightarrow> string \<Rightarrow> error + phase list" where
  "generate_phases str_lower a dur c =
     (let total_base_duration = sum_list (map base_duration (base_phases a))
      in case py_truediv dur total_base_duration of
           Inl e \<Rightarrow> Inl e
         | Inr duration_multiplier \<Rightarrow>
             build_phases str_lower a duration_multiplier (complexity_multiplier c) 1
               (base_phases a))"

subsection \<open>\<open>_generate_tech_stack\<close>\<close>

text \<open>
  \<open>list(set(xs))\<close> lists the distinct elements of \<open>xs\<close> in the iteration order of the
  interpreter's hash set, which depends on the string hashes of the running process. It
  is the parameter \<open>list_of_set\<close> of the model.
\<close>

definition generate_tech_stack ::
  "(string list \<Rightarrow> string list) \<Rightarrow> analysis \<Rightarrow> (string \<times> string list) list" where
  "generate_tech_stack list_of_set a =
     (let dmn = get_default (domain a) '''';
          stack =
            [(''programming_languages'', [''Python'']),
             (''core_libraries'', [''NumPy'', ''Pandas'', ''Matplotlib'']),
             (''development_tools'', [''Jupyter Notebook'', ''Git'', ''VS Code'']),
             (''testing'', [''Pytest'', ''Unit Testing'']),
             (''deployment'', [''Docker'', ''Flask/FastAPI''])];
          stack =
            (if py_in ''NLP'' (upper dmn) then
               AList.update ''nlp_libraries'' [''spaCy'', ''NLTK'', ''Gensim'']
                 (AList.update ''ml_frameworks''
                    [''TensorFlow'', ''PyTorch'', ''Transformers (Hugging Face)''] stack)
             else if py_in ''Vision'' (upper dmn) then
               AList.update ''cv_libraries'' [''PIL'', ''scikit-image'', ''albumentations'']
                 (AList.update ''ml_frameworks'' [''TensorFlow'', ''PyTorch'', ''OpenCV''] stack)
             else
               AList.update ''ml_frameworks'' [''Scikit-learn'', ''TensorFlow'', ''PyTorch''] stack);
          fws = analysis_frameworks a
      in if fws \<noteq> [] then
           (let stack =
                  (if map_of stack ''ml_frameworks'' = None
                   then AList.update ''ml_frameworks'' [] stack else stack);
                extended = get_default (map_of stack ''ml_frameworks'') [] @ take 3 fws
            in AList.update ''ml_frameworks'' (list_of_set extended) stack)
         else stack)"

subsection \<open>\<open>_generate_architecture\<close>\<close>

definition nlp_architecture :: "(string \<times> string) list" where
  "nlp_architecture =
     [(''data_layer'', ''Text preprocessing and tokenization pipeline''),
      (''model_layer'', ''Neural language models and transformers''),
      (''application_layer'', ''NLP applications and APIs''),
      (''interface_layer'', ''Web interface and user interaction'')]"

definition vision_architecture :: "(string \<times> string) list" where
  "vision_architecture =
     [(''data_layer'', ''Image preprocessing and augmentation pipeline''),
      (''model_layer'', ''Convolutional neural networks and vision models''),
      (''application_layer'', ''Computer vision applications and APIs''),
      (''interface_layer'', ''Image upload interface and visualization'')]"

definition generic_architecture :: "(string \<times> string) list" where
  "generic_architecture =
     [(''data_layer'', ''Data preprocessing and feature engineering''),
      (''model_layer'', ''Machine learning models and algorithms''),
      (''application_layer'', ''Prediction services and APIs''),
      (''interface_layer'', ''Dashboard and user interface'')]"

definition generate_architecture :: "analysis \<Rightarrow> (string \<times> string) list" where
  "generate_architecture a =
     (let dmn = get_default (domain a) ''''
      in if py_in ''NLP'' (upper dmn) then nlp_architecture
         else if py_in ''Vision'' (upper dmn) then vision_architecture
         else generic_architecture)"

subsection \<open>\<open>_generate_resource_requirements\<close>\<close>

definition generate_resource_requirements :: "analysis \<Rightarrow> int \<Rightarrow> (string \<times> string) list" where
  "generate_resource_requirements a team =
     (let c = get_default (complexity a) ''Intermediate'';
          res =
            [(''team'', str_int team @ '' team members (developers, data scientists, researchers)''),
             (''development_environment'', ''Modern development machines with good specifications'')];
          res =
            (if c \<in> set [''Advanced'', ''Expert'']
             then AList.update ''cloud_resources'' ''Cloud GPU instances for training (AWS/GCP/Azure)''
                    (AList.update ''hardware'' ''GPU workstations (8GB+ VRAM), 32GB+ RAM, SSD storage'' res)
             else AList.update ''cloud_resources'' ''Basic cloud services for deployment''
                    (AList.update ''hardware'' ''Standard development machines, GPU recommended'' res));
          dmn = get_default (domain a) ''''
      in if py_in ''NLP'' (upper dmn)
         then AList.update ''data_storage'' ''Large text corpora and pre-trained models'' res
         else if py_in ''Vision'' (upper dmn)
         then AList.update ''data_storage'' ''Image datasets and pre-trained vision models'' res
         else res)"

subsection \<open>\<open>_generate_risks\<close>\<close>

definition generate_risks :: "analysis \<Rightarrow> string \<Rightarrow> risk_entry list" where
  "generate_risks a c =
     (let base_risks =
            [\<lparr>risk = ''Technical complexity exceeding team capabilities'',
              mitigation = ''Provide comprehensive training and consider external consultants''\<rparr>,
             \<lparr>risk = ''Data quality and availability issues'',
              mitigation = ''Establish data quality checks and backup data sources''\<rparr>,
             \<lparr>risk = ''Performance not meeting requirements'',
              mitigation = ''Set realistic benchmarks and implement iterative improvements''\<rparr>,
             \<lparr>risk = ''Timeline delays due to unforeseen challenges'',
              mitigation = ''Build buffer time into schedule and prioritize core features''\<rparr>];
          base_risks =
            (if c \<in> set [''Advanced'', ''Expert'']
             then base_risks @
               [\<lparr>risk = ''High computational resource requirements'',
                 mitigation = ''Secure adequate cloud resources and optimize algorithms''\<rparr>,
                \<lparr>risk = ''Keeping up with rapidly evolving research'',
                 mitigation = ''Establish continuous learning and update procedures''\<rparr>]
             else base_risks)
      in base_risks @
         map (\<lambda>challenge. \<lparr>risk = challenge,
                              mitigation = ''Implement targeted solutions and monitoring''\<rparr>)
           (take 2 (get_default (challenges a) [])))"

subsection \<open>\<open>_generate_success_metrics\<close>\<close>

definition generate_success_metrics :: "analysis \<Rightarrow> (string \<times> string list) list" where
  "generate_success_metrics a =
     (let dmn = get_default (domain a) '''';
          technical =
            [''Model accuracy > 85%'',
             ''System response time < 2 seconds'',
             ''Code coverage > 80%'',
             ''Performance benchmarks achieved''];
          project =
            [''On-time delivery'',
             ''Budget adherence'',
             ''Quality standards met'',
             ''Stakeholder satisfaction > 4.0/5.0''];
          technical =
            (if py_in ''NLP'' (upper dmn) then technical @
               [''BLEU score > 25 (for translation tasks)'',
                ''F1-score > 0.85 (for classification)'',
                ''ROUGE score > 0.7 (for summarization)'']
             else if py_in ''Vision'' (upper dmn) then technical @
               [''Image classification accuracy > 90%'',
                ''Object detection mAP > 0.5'',
                ''Real-time processing capability'']
             else technical)
      in [(''technical_metrics'', technical), (''project_metrics'', project)])"

subsection \<open>\<open>_generate_timeline\<close>\<close>

text \<open>
  The wall clock and the date library, as one call of the generator sees them: the two
  formats of the current time, and the formatted date a number of days later, which
  raises when that date is out of the library's range.
\<close>

record clock =
  now_isoformat :: string
  now_date :: string
  date_after_days :: "int \<Rightarrow> error + string"

text \<open>\<open>max\<close> over a generator: \<open>ValueError\<close> when it yields nothing.\<close>

fun py_max :: "int list \<Rightarrow> error + int" where
  "py_max [] = Inl ValueError"
| "py_max (x # xs) = Inr (fold max xs x)"

definition total_duration_months :: "phase list \<Rightarrow> error + int" where
  "total_duration_months ps = py_max (map end_month ps)"

definition generate_timeline :: "clock \<Rightarrow> phase list \<Rightarrow> error + timeline" where
  "generate_timeline clk ps =
     (case total_duration_months ps of
        Inl e \<Rightarrow> Inl e
      | Inr total_months \<Rightarrow>
          (case date_after_days clk (total_months * 30) of
             Inl e \<Rightarrow> Inl e
           | Inr end_date \<Rightarrow>
               Inr \<lparr>total_duration = str_int total_months @ '' months'',
                    start_date = now_date clk,
                    estimated_end_date = end_date,
                    milestones =
                      map (\<lambda>p. \<lparr>ms_name = ph_name p @ '' Completion'',
                                   ms_month = end_month p,
                                   ms_description =
                                     ''Complete '' @ ph_name p @ '' with all deliverables''\<rparr>) ps\<rparr>))"

subsection \<open>\<open>generate_plan\<close>\<close>

definition generate_plan ::
  "clock \<Rightarrow> (string list \<Rightarrow> string list) \<Rightarrow> (string \<Rightarrow> string) \<Rightarrow> analysis \<Rightarrow>
     project_settings \<Rightarrow> error + project_plan" where
  "generate_plan clk list_of_set str_lower a s =
     (let dmn = get_default (domain a) ''Computer Science'';
          c = get_default (complexity a) ''Intermediate'';
          dur = get_default (duration s) 20;
          team = get_default (team_size s) 5
      in case generate_phases str_lower a dur c of
           Inl e \<Rightarrow> Inl e
         | Inr ps \<Rightarrow>
             (case generate_timeline clk ps of
                Inl e \<Rightarrow> Inl e
              | Inr tline \<Rightarrow>
                  Inr \<lparr>overview =
                         \<lparr>po_title = get_default (title a) ''Research Implementation'' @ '' - Project Plan'',
                          po_domain = dmn,
                          po_complexity = c,
                          estimated_duration = str_int dur @ '' months'',
                          po_team_size = team,
                          generated_date = now_isoformat clk\<rparr>,
                       phases = ps,
                       technical_stack = generate_tech_stack list_of_set a,
                       architecture = generate_architecture a,
                       resources = generate_resource_requirements a team,
                       risks = generate_risks a c,
                       success_metrics = generate_success_metrics a,
                       plan_timeline = tline\<rparr>))"

section \<open>The diagram generator (\<open>visualization_generator.py\<close>)\<close>

subsection \<open>\<open>_generate_gantt_chart\<close>\<close>

text \<open>
  The chart is a text of one line per bar, \<open>label :id, start, length\<close>. The model keeps
  the four parts of each line. Phase \<open>i\<close> (counted from 0) gives one bar for the phase and
  one for each of its first three tasks.
\<close>

record gantt_row =
  row_label :: string
  row_id :: string
  row_start :: int
  row_length :: int

definition gantt_phase_label :: "phase \<Rightarrow> string" where
  "gantt_phase_label p = replace_space (ph_name p)"

definition gantt_task_label :: "string \<Rightarrow> string" where
  "gantt_task_label task = take 20 (replace_space task)"

definition gantt_phase_rows :: "nat \<Rightarrow> phase \<Rightarrow> gantt_row list" where
  "gantt_phase_rows i p =
     (let months = end_month p - start_month p + 1;
          task_duration = max 1 (months div int (length (tasks p)))
      in \<lparr>row_label = gantt_phase_label p,
           row_id = ''a'' @ str_int (int i + 1),
           row_start = start_month p,
           row_length = months\<rparr> #
         map (\<lambda>(j, task).
                \<lparr>row_label = gantt_task_label task,
                 row_id = ''a'' @ str_int (int i + 1) @ ''_'' @ str_int (int j + 1),
                 row_start = start_month p + int j * task_duration,
                 row_length = task_duration\<rparr>)
           (enumerate 0 (take 3 (tasks p))))"

definition generate_gantt_chart :: "project_plan \<Rightarrow> gantt_row list" where
  "generate_gantt_chart plan =
     concat (map (\<lambda>(i, p). gantt_phase_rows i p) (enumerate 0 (phases plan)))"

subsection \<open>\<open>_generate_architecture_diagram\<close>\<close>

text \<open>One node per key of the plan's architecture; the model keeps the node identifiers.\<close>

definition component_id :: "string \<Rightarrow> string" where
  "component_id component = replace_space (upper component)"

definition generate_architecture_diagram :: "project_plan \<Rightarrow> string list" where
  "generate_architecture_diagram plan = map (\<lambda>(component, description). component_id component) (architecture plan)"

section \<open>The paper analyzer (\<open>ai_analyzer.py\<close>)\<close>

subsection \<open>\<open>_create_analysis_prompt\<close>\<close>

definition prompt_head :: string where
  \<open>prompt_head =
     ''\<newline>'' @
     ''        Analyze the following research paper and provide a comprehensive analysis in JSON format:\<newline>'' @
     ''\<newline>'' @
     ''        RESEARCH PAPER TEXT:\<newline>'' @
     ''        ''\<close>

definition prompt_tail :: string where
  \<open>prompt_tail =
     ''\<newline>'' @
     ''\<newline>'' @
     ''        Please provide analysis in the following JSON structure:\<newline>'' @
     ''        {\<newline>'' @
     ''            "title": "Paper title",\<newline>'' @
     ''            "authors": "Author names",\<newline>'' @
     ''            "abstract": "Paper abstract or summary",\<newline>'' @
     ''            "domain": "Research domain (e.g., NLP, Computer Vision, Machine Learning)",\<newline>'' @
     ''            "research_type": "Type of research (e.g., Survey, Experimental, Theoretical)",\<newline>'' @
     ''            "year": "Publication year if mentioned",\<newline>'' @
     ''            "complexity": "Complexity level (Beginner/Intermediate/Advanced/Expert)",\<newline>'' @
     ''            "key_concepts": ["List of key concepts and technologies"],\<newline>'' @
     ''            "methodologies": ["Research methodologies mentioned"],\<newline>'' @
     ''            "technical_requirements": {\<newline>'' @
     ''                "programming_languages": ["List of programming languages"],\<newline>'' @
     ''                "frameworks": ["List of frameworks and libraries"],\<newline>'' @
     ''                "hardware": ["Hardware requirements"],\<newline>'' @
     ''                "datasets": ["Datasets mentioned"]\<newline>'' @
     ''            },\<newline>'' @
     ''            "applications": ["Potential applications"],\<newline>'' @
     ''            "challenges": ["Technical challenges mentioned"],\<newline>'' @
     ''            "future_work": ["Future research directions"]\<newline>'' @
     ''        }\<newline>'' @
     ''\<newline>'' @
     ''        Focus on extracting information that would be useful for creating a project implementation plan.\<newline>'' @
     ''        ''\<close>

definition create_analysis_prompt :: "string \<Rightarrow> string" where
  "create_analysis_prompt text =
     prompt_head @ (if 8000 < length text then take 8000 text @ ''...'' else text) @ prompt_tail"

subsection \<open>\<open>_create_structured_analysis_from_text\<close> and \<open>_create_fallback_analysis\<close>\<close>

definition create_structured_analysis_from_text :: "string \<Rightarrow> analysis" where
  "create_structured_analysis_from_text text =
     \<lparr>title = Some ''Research Paper Analysis'',
      authors = Some ''Not specified'',
      abstract = Some (if 500 < length text then take 500 text @ ''...'' else text),
      domain = Some ''Computer Science'',
      research_type = Some ''Research Paper'',
      year = Some ''2024'',
      complexity = Some ''Intermediate'',
      key_concepts = Some [''Machine Learning'', ''Data Analysis'', ''Implementation''],
      methodologies = Some [''Experimental'', ''Comparative Analysis''],
      tech_requirements =
        Some \<lparr>programming_languages = Some [''Python''],
              frameworks = Some [''TensorFlow'', ''PyTorch'', ''Scikit-learn''],
              hardware = Some [''GPU recommended'', ''8GB+ RAM''],
              datasets = Some [''Custom dataset required'']\<rparr>,
      applications = Some [''Research Implementation'', ''Practical Application''],
      challenges = Some [''Data Quality'', ''Model Performance'', ''Scalability''],
      future_work = Some [''Optimization'', ''Extension'', ''Real-world Deployment'']\<rparr>"

definition create_fallback_analysis :: analysis where
  "create_fallback_analysis =
     \<lparr>title = Some ''Research Paper'',
      authors = Some ''Unknown'',
      abstract = Some ''Analysis unavailable - please check your API configuration'',
      domain = Some ''Computer Science'',
      research_type = Some ''Research Paper'',
      year = Some ''2024'',
      complexity = Some ''Intermediate'',
      key_concepts = Some [''Research'', ''Implementation''],
      methodologies = Some [''Analysis''],
      tech_requirements =
        Some \<lparr>programming_languages = Some [''Python''],
              frameworks = Some [''Standard libraries''],
              hardware = Some [''Standard hardware''],
              datasets = Some [''TBD'']\<rparr>,
      applications = Some [''Research''],
      challenges = Some [''Implementation''],
      future_work = Some [''Development'']\<rparr>"

subsection \<open>\<open>_parse_analysis_response\<close>\<close>

text \<open>
  \<open>re.search(r'\{.*\}', response_text, re.DOTALL)\<close>: with \<open>DOTALL\<close> the greedy \<open>.*\<close>
  runs over every character, so the match starts at the first opening brace and ends at
  the last closing brace after it; there is no match when no closing brace follows the
  first opening brace.
\<close>

definition up_to_last_brace :: "string \<Rightarrow> string" where
  "up_to_last_brace s = rev (dropWhile (\<lambda>c. c \<noteq> CHR ''}'') (rev s))"

definition search_json_block :: "string \<Rightarrow> string option" where
  "search_json_block response_text =
     (case dropWhile (\<lambda>c. c \<noteq> CHR ''{'') response_text of
        [] \<Rightarrow> None
      | c # rest \<Rightarrow>
          (if CHR ''}'' \<in> set rest then Some (c # up_to_last_brace rest) else None))"

text \<open>
  \<open>json.loads\<close> is the library's decoder, a parameter of the model: it returns the decoded
  dictionary, read as an analysis, or raises. Only \<open>JSONDecodeError\<close> is handled here;
  any other exception (\<open>RecursionError\<close> on deeply nested text, for one) leaves the
  function.
\<close>

definition parse_analysis_response ::
  "(string \<Rightarrow> error + analysis) \<Rightarrow> string \<Rightarrow> error + analysis" where
  "parse_analysis_response json_loads response_text =
     (case search_json_block response_text of
        Some json_str \<Rightarrow>
          (case json_loads json_str of
             Inr a \<Rightarrow> Inr a
           | Inl JSONDecodeError \<Rightarrow> Inr (create_structured_analysis_from_text response_text)
           | Inl e \<Rightarrow> Inl e)
      | None \<Rightarrow> Inr (create_structured_analysis_from_text response_text))"

subsection \<open>\<open>_initialize_client\<close> and \<open>analyze_paper\<close>\<close>

text \<open>
  The client is the network: given the prompt it returns the reply's text, or raises.
  \<open>together\<close> builds a client from a key. An analyzer holds a client or \<open>None\<close>.
\<close>

type_synonym client = "string \<Rightarrow> error + string"

record ai_analyzer =
  client :: "client option"

definition initialize_client :: "(string \<Rightarrow> client) \<Rightarrow> string option \<Rightarrow> ai_analyzer" where
  "initialize_client together api_key =
     (case api_key of
        None \<Rightarrow> \<lparr>client = None\<rparr>
      | Some k \<Rightarrow> (if k \<noteq> [] then \<lparr>client = Some (together k)\<rparr> else \<lparr>client = None\<rparr>))"

text \<open>
  The result of a call is what it returns or raises, together with the prompts it has
  sent over the network, in order.
\<close>

definition analyze_paper ::
  "ai_analyzer \<Rightarrow> (string \<Rightarrow> error + analysis) \<Rightarrow> string \<Rightarrow> (error + analysis) \<times> string list" where
  "analyze_paper az json_loads text =
     (case client az of
        None \<Rightarrow> (Inl (Exception ''Together.AI client not initialized. Please provide API key.''), [])
      | Some call \<Rightarrow>
          (let analysis_prompt = create_analysis_prompt text
           in case call analysis_prompt of
                Inl e \<Rightarrow> (Inr create_fallback_analysis, [analysis_prompt])
              | Inr analysis_text \<Rightarrow>
                  (case parse_analysis_response json_loads analysis_text of
                     Inl e \<Rightarrow> (Inr create_fallback_analysis, [analysis_prompt])
                   | Inr a \<Rightarrow> (Inr a, [analysis_prompt]))))"

section \<open>Notions used in the statements\<close>

text \<open>The number of months a phase spans, both ends included.\<close>

definition phase_months :: "phase \<Rightarrow> int" where
  "phase_months p = end_month p - start_month p + 1"

text \<open>An analysis that gives a domain and a complexity and nothing else.\<close>

definition vision_analysis :: analysis where
  "vision_analysis =
     \<lparr>title = None, authors = None, abstract = None,
      domain = Some ''Computer Vision'',
      research_type = None, year = None,
      complexity = Some ''Advanced'',
      key_concepts = None, methodologies = None, tech_requirements = None,
      applications = None, challenges = None, future_work = None\<rparr>"

text \<open>An analysis that gives key concepts and nothing else.\<close>

definition concepts_only :: "string list \<Rightarrow> analysis" where
  "concepts_only cs =
     \<lparr>title = None, authors = None, abstract = None, domain = None,
      research_type = None, year = None, complexity = None,
      key_concepts = Some cs, methodologies = None, tech_requirements = None,
      applications = None, challenges = None, future_work = None\<rparr>"

text \<open>The two phrasings of an appended task.\<close>

definition implement_task :: "string \<Rightarrow> string" where
  "implement_task concept = ''Implement '' @ concept @ '' functionality''"

definition integrate_task :: "string \<Rightarrow> string" where
  "integrate_task framework = ''Integrate '' @ framework @ '' framework''"

text \<open>
  The rule of task customization as the specification words it: a concept or framework
  is skipped when some task of the current list contains it, case-insensitively.
\<close>

definition task_contains :: "(string \<Rightarrow> string) \<Rightarrow> string list \<Rightarrow> string \<Rightarrow> bool" where
  "task_contains str_lower ts x = list_ex (\<lambda>t. py_in (str_lower x) (str_lower t)) ts"

definition spec_add_task ::
  "(string \<Rightarrow> string) \<Rightarrow> string \<Rightarrow> string \<Rightarrow> string list \<Rightarrow> string \<Rightarrow> string list" where
  "spec_add_task str_lower before after ts x =
     (if task_contains str_lower ts x then ts else ts @ [before @ x @ after])"

definition spec_customize_tasks ::
  "(string \<Rightarrow> string) \<Rightarrow> string list \<Rightarrow> string list \<Rightarrow> string list \<Rightarrow> string list" where
  "spec_customize_tasks str_lower base_tasks concepts fws =
     foldl (spec_add_task str_lower ''Integrate '' '' framework'')
       (foldl (spec_add_task str_lower ''Implement '' '' functionality'') base_tasks
          (take 3 concepts))
       (take 2 fws)"

text \<open>
  What the statements on task customization need of \<open>str.lower\<close>: the empty text stays
  empty, and a space separates: the text before it and the text after it are lower-cased
  each on its own. (Lower-casing looks at neighbouring letters only for the Greek
  capital sigma, and never across a space.)
\<close>

definition lower_splits_at_space :: "(string \<Rightarrow> string) \<Rightarrow> bool" where
  "lower_splits_at_space str_lower \<longleftrightarrow>
     str_lower [] = [] \<and>
     (\<forall>xs ys. str_lower (xs @ CHR '' '' # ys) = str_lower xs @ CHR '' '' # str_lower ys)"

text \<open>The text of the current tasks already holds \<open>x\<close>, as the source tests it.\<close>

definition joined_contains :: "(string \<Rightarrow> string) \<Rightarrow> string list \<Rightarrow> string \<Rightarrow> bool" where
  "joined_contains str_lower ts x = py_in (str_lower x) (str_lower (join_space ts))"

text \<open>
  The scaling formula in exact arithmetic: the multipliers as the decimal fractions the
  source writes, the products unrounded, one rounding to the nearest integer at the end.
\<close>

definition exact_multiplier :: "string \<Rightarrow> real" where
  "exact_multiplier c =
     (if c = ''Beginner'' then 8 / 10
      else if c = ''Intermediate'' then 1
      else if c = ''Advanced'' then 13 / 10
      else if c = ''Expert'' then 16 / 10
      else 1)"

definition exact_duration :: "int \<Rightarrow> int \<Rightarrow> string \<Rightarrow> int \<Rightarrow> int" where
  "exact_duration total_base dur c b =
     max 1 (round_half_even (of_int b * (of_int dur / of_int total_base) * exact_multiplier c))"

text \<open>Phases that follow one another without gap or overlap, the first starting at \<open>m\<close>.\<close>

fun contiguous_from :: "int \<Rightarrow> phase list \<Rightarrow> bool" where
  "contiguous_from m [] = True"
| "contiguous_from m (p # ps) = (start_month p = m \<and> contiguous_from (end_month p + 1) ps)"

text \<open>The position of a complexity label in the order of the four labels.\<close>

definition complexity_rank :: "string \<Rightarrow> nat option" where
  "complexity_rank c =
     map_of [(''Beginner'', 0), (''Intermediate'', 1), (''Advanced'', 2), (''Expert'', 3)] c"

text \<open>What the specification lists as independent of the clock.\<close>

definition plan_core ::
  "project_plan \<Rightarrow>
     phase list \<times> (string \<times> string list) list \<times> (string \<times> string) list \<times>
     (string \<times> string) list \<times> risk_entry list" where
  "plan_core plan =
     (phases plan, technical_stack plan, architecture plan, resources plan, risks plan)"

text \<open>
  Stand-ins for the network and the decoder in statements at concrete inputs: a client
  that answers every prompt with one reply, a client that raises, a decoder that raises
  \<open>RecursionError\<close> on every text, and a decoder that raises \<open>RecursionError\<close> on text
  with a bracket in it and \<open>JSONDecodeError\<close> on any other.
\<close>

definition replying :: "string \<Rightarrow> client" where
  "replying reply prompt = Inr reply"

definition refusing :: client where
  "refusing prompt = Inl (Exception ''connection refused'')"

definition recursion_decoder :: "string \<Rightarrow> error + analysis" where
  "recursion_decoder s = Inl RecursionError"

definition bracket_decoder :: "string \<Rightarrow> error + analysis" where
  "bracket_decoder s = (if CHR ''['' \<in> set s then Inl RecursionError else Inl JSONDecodeError)"

text \<open>A reply whose brace-delimited block is nested a thousand brackets deep.\<close>

definition nested_reply :: string where
  \<open>nested_reply = ''{"a": '' @ replicate 1000 (CHR ''['') @ replicate 1000 (CHR '']'') @ ''}''\<close>

text \<open>
  One loop of the customization, for either phrasing: what it appends, that nothing is
  appended twice, and that every item it has gone through is in the text afterwards.
\<close>

definition loop_result ::
  "(string \<Rightarrow> string) \<Rightarrow> (string \<Rightarrow> string) \<Rightarrow> string list \<Rightarrow> string list \<Rightarrow> string list \<Rightarrow>
     string list \<Rightarrow> bool" where
  "loop_result lw mk ts xs ks result \<longleftrightarrow>
     subseq ks xs \<and> result = ts @ map mk ks \<and> distinct (map lw ks) \<and>
     (\<forall>k\<in>set ks. \<not> joined_contains lw ts k) \<and>
     (\<forall>x\<in>set xs. joined_contains lw result x)"

section \<open>Facts about strings\<close>

lemmas str_eval = py_in_def upper_def upper_char_def lower_def lower_char_def sublist_code(3)
  get_default_def

lemma upper_char_not_i: "upper_char c \<noteq> CHR ''i''"
  by (auto simp: upper_char_def)

text \<open>No upper-cased text contains the mixed-case word the source tests for.\<close>

lemma Vision_not_in_upper: "\<not> py_in ''Vision'' (upper s)"
proof
  assume "py_in ''Vision'' (upper s)"
  then obtain ps ss where "upper s = ps @ ''Vision'' @ ss"
    by (auto simp: py_in_def sublist_def)
  hence "CHR ''i'' \<in> set (upper s)" by simp
  then obtain c where "upper_char c = CHR ''i''" by (auto simp: upper_def)
  thus False by (simp add: upper_char_not_i)
qed

lemma generate_architecture_never_vision: "generate_architecture a \<noteq> vision_architecture"
  by (simp add: generate_architecture_def Let_def Vision_not_in_upper nlp_architecture_def
      vision_architecture_def generic_architecture_def)

lemma sublist_append_right: "sublist x y \<Longrightarrow> sublist x (y @ z)"
proof -
  assume "sublist x y"
  then obtain ps ss where "y = ps @ x @ ss" by (auto simp: sublist_def)
  hence "y @ z = ps @ x @ (ss @ z)" by simp
  thus ?thesis unfolding sublist_def by blast
qed

lemma sublist_append_left: "sublist x y \<Longrightarrow> sublist x (z @ y)"
proof -
  assume "sublist x y"
  then obtain ps ss where "y = ps @ x @ ss" by (auto simp: sublist_def)
  hence "z @ y = (z @ ps) @ x @ ss" by simp
  thus ?thesis unfolding sublist_def by blast
qed

lemma replace_space_no_space: "CHR '' '' \<notin> set (replace_space s)"
  by (auto simp: replace_space_def)

lemma join_space_snoc:
  "join_space (ts @ [x]) = (if ts = [] then x else join_space ts @ '' '' @ x)"
  by (induction ts rule: join_space.induct) auto

text \<open>The ASCII lower-casing splits at a space.\<close>

lemma lower_splits_at_space_lower: "lower_splits_at_space lower"
  by (simp add: lower_splits_at_space_def lower_def lower_char_def)

section \<open>Domain-conditional outputs\<close>

text \<open>
  C3. For the domain \<open>Computer Vision\<close> the phase templates are those of the vision
  family, but the architecture is the generic one and the technical stack is the
  generic baseline: no \<open>cv_libraries\<close> entry, no OpenCV among the \<open>ml_frameworks\<close>. The
  vision branches of \<open>_generate_architecture\<close> and \<open>_generate_tech_stack\<close> look for the
  mixed-case word \<open>Vision\<close> in the upper-cased domain and are never taken.
\<close>

theorem vision_domain_gets_generic_outputs:
  "template_key ''Computer Vision'' = ''Computer Vision'' \<and>
   generate_architecture vision_analysis = generic_architecture \<and>
   generate_architecture vision_analysis \<noteq> vision_architecture \<and>
   map_of (generate_tech_stack remdups vision_analysis) ''cv_libraries'' = None \<and>
   map_of (generate_tech_stack remdups vision_analysis) ''ml_frameworks'' =
     Some [''Scikit-learn'', ''TensorFlow'', ''PyTorch'']"
  by (simp add: template_key_def generate_architecture_def generate_tech_stack_def
      vision_analysis_def analysis_frameworks_def str_eval Let_def
      vision_architecture_def generic_architecture_def)

section \<open>The analyzer without a client\<close>

text \<open>
  C10. When no API key is configured (the environment variable is unset or empty), the
  analyzer has no client, and \<open>analyze_paper\<close> raises for every text, having sent nothing
  over the network; it does not return the fallback record.
\<close>

theorem no_client_raises:
  assumes "api_key = None \<or> api_key = Some []"
  shows "analyze_paper (initialize_client together api_key) json_loads text =
           (Inl (Exception ''Together.AI client not initialized. Please provide API key.''), [])"
  using assms by (auto simp: analyze_paper_def initialize_client_def)

theorem no_client_raises_witness:
  "analyze_paper (initialize_client (\<lambda>k p. Inr ''{}'') None) (\<lambda>s. Inl JSONDecodeError)
     ''some paper text'' =
     (Inl (Exception ''Together.AI client not initialized. Please provide API key.''), [])"
  using no_client_raises [of None "\<lambda>k p. Inr ''{}''" "\<lambda>s. Inl JSONDecodeError" "''some paper text''"]
  by simp

section \<open>The two fallback records of the analyzer\<close>

text \<open>The search finds nothing exactly when no closing brace follows an opening brace.\<close>

lemma search_json_block_None_iff:
  "search_json_block s = None \<longleftrightarrow> \<not> (\<exists>u v w. s = u @ ''{'' @ v @ ''}'' @ w)"
proof
  assume n: "search_json_block s = None"
  show "\<not> (\<exists>u v w. s = u @ ''{'' @ v @ ''}'' @ w)"
  proof
    assume "\<exists>u v w. s = u @ ''{'' @ v @ ''}'' @ w"
    then obtain u v w where s: "s = u @ ''{'' @ v @ ''}'' @ w" by blast
    have "CHR ''{'' \<in> set s" using s by simp
    then obtain a b where ab: "s = a @ CHR ''{'' # b" "CHR ''{'' \<notin> set a"
      by (meson split_list_first)
    hence dw: "dropWhile (\<lambda>c. c \<noteq> CHR ''{'') s = CHR ''{'' # b"
      by (auto simp: dropWhile_append3)
    have au: "length a \<le> length u"
    proof (rule ccontr)
      assume "\<not> length a \<le> length u"
      hence l: "length u < length a" by simp
      hence "a ! length u = s ! length u" using ab by (simp add: nth_append)
      also have "\<dots> = CHR ''{''" using s by (simp add: nth_append)
      finally have "CHR ''{'' \<in> set a" using l by (metis nth_mem)
      thus False using ab by simp
    qed
    have "CHR ''}'' \<in> set b"
    proof -
      have "s ! (length u + 1 + length v) = CHR ''}''" using s by (simp add: nth_append)
      moreover have l1: "length a < length u + 1 + length v" using au by simp
      moreover have l2: "length u + 1 + length v < length s" using s by simp
      ultimately have "b ! (length u + 1 + length v - length a - 1) = CHR ''}''"
        using ab by (simp add: nth_append)
      moreover have "length u + 1 + length v - length a - 1 < length b"
        using ab l1 l2 by simp
      ultimately show ?thesis by (metis nth_mem)
    qed
    thus False using n dw by (simp add: search_json_block_def)
  qed
next
  assume n: "\<not> (\<exists>u v w. s = u @ ''{'' @ v @ ''}'' @ w)"
  show "search_json_block s = None"
  proof (cases "dropWhile (\<lambda>c. c \<noteq> CHR ''{'') s")
    case Nil
    show ?thesis unfolding search_json_block_def Nil by simp
  next
    case (Cons c rest)
    hence c: "c = CHR ''{''" using hd_dropWhile [of "\<lambda>c. c \<noteq> CHR ''{''" s] by force
    have s: "s = takeWhile (\<lambda>c. c \<noteq> CHR ''{'') s @ CHR ''{'' # rest"
      using Cons c by (metis takeWhile_dropWhile_id)
    have "CHR ''}'' \<notin> set rest"
    proof
      assume "CHR ''}'' \<in> set rest"
      then obtain v w where "rest = v @ CHR ''}'' # w" by (meson split_list)
      hence "s = takeWhile (\<lambda>c. c \<noteq> CHR ''{'') s @ ''{'' @ v @ ''}'' @ w" using s by simp
      thus False using n by blast
    qed
    thus ?thesis unfolding search_json_block_def Cons by simp
  qed
qed

text \<open>
  C9, as stated, fails where the decoder raises something other than
  \<open>JSONDecodeError\<close>: the reply holds a brace-delimited block, the block fails to decode,
  \<open>_parse_analysis_response\<close> does not return the record built from the reply but
  raises, and \<open>analyze_paper\<close> returns the canned record although the network call has
  returned. The input is a reply whose block is nested a thousand brackets deep, on
  which the decoder raises \<open>RecursionError\<close>.
\<close>

theorem undecodable_block_gives_canned_record:
  "search_json_block nested_reply \<noteq> None \<and>
   parse_analysis_response recursion_decoder nested_reply = Inl RecursionError \<and>
   analyze_paper \<lparr>client = Some (replying nested_reply)\<rparr> recursion_decoder ''paper'' =
     (Inr create_fallback_analysis, [create_analysis_prompt ''paper'']) \<and>
   create_fallback_analysis \<noteq> create_structured_analysis_from_text nested_reply"
proof -
  have \<open>nested_reply =
      [] @ ''{'' @ (''"a": '' @ replicate 1000 (CHR ''['') @ replicate 1000 (CHR '']'')) @
      ''}'' @ []\<close>
    by (simp add: nested_reply_def)
  hence "\<exists>u v w. nested_reply = u @ ''{'' @ v @ ''}'' @ w" by blast
  hence "search_json_block nested_reply \<noteq> None"
    by (simp add: search_json_block_None_iff)
  then obtain js where js: "search_json_block nested_reply = Some js" by blast
  have p: "parse_analysis_response recursion_decoder nested_reply = Inl RecursionError"
    by (simp add: parse_analysis_response_def js recursion_decoder_def)
  have "analyze_paper \<lparr>client = Some (replying nested_reply)\<rparr> recursion_decoder ''paper'' =
     (Inr create_fallback_analysis, [create_analysis_prompt ''paper''])"
    by (simp add: analyze_paper_def replying_def p Let_def)
  moreover have "create_fallback_analysis \<noteq> create_structured_analysis_from_text nested_reply"
    by (simp add: create_structured_analysis_from_text_def create_fallback_analysis_def)
  ultimately show ?thesis using js p by simp
qed

text \<open>
  C9, amended. A reply in which no closing brace follows an opening brace, and a reply
  whose brace-delimited block makes the decoder raise \<open>JSONDecodeError\<close>, both give the
  record built from the reply, its abstract the reply's first 500 characters (followed
  by three dots when the reply is longer), from \<open>_parse_analysis_response\<close> and from
  \<open>analyze_paper\<close>. A network call that raises gives the canned record, whose abstract is
  the fixed text, and so does a reply whose block makes the decoder raise any other
  exception. Each call sends the one prompt. For every reply the two records differ.
\<close>

theorem analyzer_fallbacks:
  assumes "\<not> (\<exists>u v w. reply_a = u @ ''{'' @ v @ ''}'' @ w)"
    and "search_json_block reply_b = Some json_b"
    and "json_loads json_b = Inl JSONDecodeError"
    and "search_json_block reply_c = Some json_c"
    and "json_loads json_c = Inl err" and "err \<noteq> JSONDecodeError"
    and "call_a (create_analysis_prompt paper) = Inr reply_a"
    and "call_b (create_analysis_prompt paper) = Inr reply_b"
    and "call_c (create_analysis_prompt paper) = Inr reply_c"
    and "failing (create_analysis_prompt paper) = Inl e"
  shows "parse_analysis_response json_loads reply_a =
           Inr (create_structured_analysis_from_text reply_a) \<and>
         parse_analysis_response json_loads reply_b =
           Inr (create_structured_analysis_from_text reply_b) \<and>
         parse_analysis_response json_loads reply_c = Inl err \<and>
         analyze_paper \<lparr>client = Some call_a\<rparr> json_loads paper =
           (Inr (create_structured_analysis_from_text reply_a), [create_analysis_prompt paper]) \<and>
         analyze_paper \<lparr>client = Some call_b\<rparr> json_loads paper =
           (Inr (create_structured_analysis_from_text reply_b), [create_analysis_prompt paper]) \<and>
         analyze_paper \<lparr>client = Some call_c\<rparr> json_loads paper =
           (Inr create_fallback_analysis, [create_analysis_prompt paper]) \<and>
         analyze_paper \<lparr>client = Some failing\<rparr> json_loads paper =
           (Inr create_fallback_analysis, [create_analysis_prompt paper]) \<and>
         abstract (create_structured_analysis_from_text reply) =
           Some (if 500 < length reply then take 500 reply @ ''...'' else reply) \<and>
         abstract create_fallback_analysis =
           Some ''Analysis unavailable - please check your API configuration'' \<and>
         create_structured_analysis_from_text reply \<noteq> create_fallback_analysis"
proof -
  have a: "search_json_block reply_a = None"
    using assms(1) by (simp add: search_json_block_None_iff)
  have pa: "parse_analysis_response json_loads reply_a =
      Inr (create_structured_analysis_from_text reply_a)"
    by (simp add: parse_analysis_response_def a)
  have pb: "parse_analysis_response json_loads reply_b =
      Inr (create_structured_analysis_from_text reply_b)"
    by (simp add: parse_analysis_response_def assms(2,3))
  have pc: "parse_analysis_response json_loads reply_c = Inl err"
    using assms(6) by (cases err) (simp_all add: parse_analysis_response_def assms(4,5))
  show ?thesis
    using pa pb pc assms(7-10)
    by (simp add: analyze_paper_def Let_def
        create_structured_analysis_from_text_def create_fallback_analysis_def)
qed

theorem analyzer_fallbacks_witness:
  "parse_analysis_response bracket_decoder ''I cannot read this paper.'' =
     Inr (create_structured_analysis_from_text ''I cannot read this paper.'') \<and>
   parse_analysis_response bracket_decoder ''Here: {title: none} done'' =
     Inr (create_structured_analysis_from_text ''Here: {title: none} done'') \<and>
   parse_analysis_response bracket_decoder ''Here: {[[title]]} done'' = Inl RecursionError \<and>
   analyze_paper \<lparr>client = Some (replying ''I cannot read this paper.'')\<rparr> bracket_decoder
       ''paper'' =
     (Inr (create_structured_analysis_from_text ''I cannot read this paper.''),
      [create_analysis_prompt ''paper'']) \<and>
   analyze_paper \<lparr>client = Some (replying ''Here: {title: none} done'')\<rparr> bracket_decoder
       ''paper'' =
     (Inr (create_structured_analysis_from_text ''Here: {title: none} done''),
      [create_analysis_prompt ''paper'']) \<and>
   analyze_paper \<lparr>client = Some (replying ''Here: {[[title]]} done'')\<rparr> bracket_decoder
       ''paper'' =
     (Inr create_fallback_analysis, [create_analysis_prompt ''paper'']) \<and>
   analyze_paper \<lparr>client = Some refusing\<rparr> bracket_decoder ''paper'' =
     (Inr create_fallback_analysis, [create_analysis_prompt ''paper'']) \<and>
   create_structured_analysis_from_text ''I cannot read this paper.'' \<noteq> create_fallback_analysis"
proof -
  have 1: "\<not> (\<exists>u v w. ''I cannot read this paper.'' = u @ ''{'' @ v @ ''}'' @ w)"
    unfolding search_json_block_None_iff [symmetric]
    by (simp add: search_json_block_def)
  have 2: "search_json_block ''Here: {title: none} done'' = Some ''{title: none}''"
    by (simp add: search_json_block_def up_to_last_brace_def)
  have 3: "bracket_decoder ''{title: none}'' = Inl JSONDecodeError"
    by (simp add: bracket_decoder_def)
  have 4: "search_json_block ''Here: {[[title]]} done'' = Some ''{[[title]]}''"
    by (simp add: search_json_block_def up_to_last_brace_def)
  have 5: "bracket_decoder ''{[[title]]}'' = Inl RecursionError"
    by (simp add: bracket_decoder_def)
  have 6: "RecursionError \<noteq> JSONDecodeError" by simp
  have 7: "replying ''I cannot read this paper.'' (create_analysis_prompt ''paper'') =
             Inr ''I cannot read this paper.''"
    and 8: "replying ''Here: {title: none} done'' (create_analysis_prompt ''paper'') =
             Inr ''Here: {title: none} done''"
    and 9: "replying ''Here: {[[title]]} done'' (create_analysis_prompt ''paper'') =
             Inr ''Here: {[[title]]} done''"
    by (simp_all add: replying_def)
  have 10: "refusing (create_analysis_prompt ''paper'') = Inl (Exception ''connection refused'')"
    by (simp add: refusing_def)
  show ?thesis
    using 1 2 3 4 5 6 7 8 9 10 analyzer_fallbacks
      [where reply_a = "''I cannot read this paper.''"
         and reply_b = "''Here: {title: none} done''"
         and json_b = "''{title: none}''"
         and reply_c = "''Here: {[[title]]} done''"
         and json_c = "''{[[title]]}''"
         and err = RecursionError
         and json_loads = bracket_decoder
         and call_a = "replying ''I cannot read this paper.''"
         and call_b = "replying ''Here: {title: none} done''"
         and call_c = "replying ''Here: {[[title]]} done''"
         and failing = refusing
         and e = "Exception ''connection refused''"
         and paper = "''paper''"
         and reply = "''I cannot read this paper.''"]
    by simp
qed

section \<open>Identifiers in the diagrams\<close>

lemma enumerate_labels: "map (\<lambda>x. g (snd x)) (enumerate n xs) = map g xs"
  by (induction xs arbitrary: n) auto

lemma gantt_phase_rows_labels:
  "map row_label (gantt_phase_rows i p) =
     replace_space (ph_name p) # map (\<lambda>t. take 20 (replace_space t)) (take 3 (tasks p))"
  by (simp add: gantt_phase_rows_def Let_def gantt_phase_label_def gantt_task_label_def
      comp_def case_prod_unfold enumerate_labels [of "\<lambda>t. take 20 (replace_space t)"])

lemma gantt_rows_no_space: "CHR '' '' \<notin> set (concat (map row_label (gantt_phase_rows i p)))"
  unfolding gantt_phase_rows_labels
  using replace_space_no_space by (auto dest: in_set_takeD)

lemma gantt_chart_no_space:
  "CHR '' '' \<notin> set (concat (map row_label (generate_gantt_chart plan)))"
  using gantt_rows_no_space
  by (auto simp: generate_gantt_chart_def)

lemma architecture_ids_no_space:
  "CHR '' '' \<notin> set (concat (generate_architecture_diagram plan))"
  using replace_space_no_space
  by (auto simp: generate_architecture_diagram_def component_id_def)

text \<open>
  C8, as stated, fails on the architecture diagram: the identifier of a component is
  upper-cased before its spaces are replaced, so characters other than spaces change.
\<close>

theorem component_id_upper_cases:
  "component_id ''data_layer'' = ''DATA_LAYER'' \<and>
   component_id ''data_layer'' \<noteq> replace_space ''data_layer''"
  by (simp add: component_id_def replace_space_def upper_def upper_char_def)

text \<open>
  C8, amended. In the Gantt chart the label of a phase is its name with every space
  replaced by an underscore and nothing else changed, and the labels of its first three
  tasks are the same replacement cut to 20 characters. In the architecture diagram the
  identifier of a component is its key upper-cased, then with every space replaced by
  an underscore. None of these identifiers contains a space.
\<close>

theorem diagram_identifiers:
  "map row_label (gantt_phase_rows i p) =
     replace_space (ph_name p) # map (\<lambda>t. take 20 (replace_space t)) (take 3 (tasks p)) \<and>
   generate_architecture_diagram plan =
     map (\<lambda>(component, description). replace_space (upper component)) (architecture plan) \<and>
   CHR '' '' \<notin> set (concat (map row_label (generate_gantt_chart plan))) \<and>
   CHR '' '' \<notin> set (concat (generate_architecture_diagram plan))"
  using gantt_phase_rows_labels gantt_chart_no_space architecture_ids_no_space
  by (simp add: generate_architecture_diagram_def component_id_def)

section \<open>Task customization\<close>

lemma str_lower_join_snoc:
  assumes "lower_splits_at_space lw"
  shows "lw (join_space (ts @ [t])) =
           (if ts = [] then lw t else lw (join_space ts) @ CHR '' '' # lw t)"
  using assms by (simp add: join_space_snoc lower_splits_at_space_def)

lemma joined_contains_snoc:
  assumes "lower_splits_at_space lw" "joined_contains lw ts x"
  shows "joined_contains lw (ts @ [t]) x"
proof (cases "ts = []")
  case True
  hence "lw x = []"
    using assms by (simp add: joined_contains_def py_in_def lower_splits_at_space_def)
  thus ?thesis by (simp add: joined_contains_def py_in_def)
next
  case False
  have "sublist (lw x) (lw (join_space ts))"
    using assms(2) by (simp add: joined_contains_def py_in_def)
  hence "sublist (lw x) (lw (join_space ts) @ CHR '' '' # lw t)"
    by (rule sublist_append_right)
  thus ?thesis
    using False by (simp add: joined_contains_def py_in_def str_lower_join_snoc [OF assms(1)])
qed

lemma joined_contains_append:
  assumes "lower_splits_at_space lw" "joined_contains lw ts x"
  shows "joined_contains lw (ts @ us) x"
proof (induction us rule: rev_induct)
  case Nil
  show ?case using assms(2) by simp
next
  case (snoc u us)
  have "joined_contains lw ((ts @ us) @ [u]) x"
    using assms(1) snoc by (rule joined_contains_snoc)
  thus ?case by simp
qed

lemma joined_contains_last:
  assumes "lower_splits_at_space lw" "sublist (lw x) (lw t)"
  shows "joined_contains lw (ts @ [t]) x"
proof (cases "ts = []")
  case True
  thus ?thesis using assms(2) by (simp add: joined_contains_def py_in_def)
next
  case False
  have "sublist (lw x) ((lw (join_space ts) @ '' '') @ lw t)"
    using assms(2) by (rule sublist_append_left)
  thus ?thesis
    using False by (simp add: joined_contains_def py_in_def str_lower_join_snoc [OF assms(1)])
qed

lemma joined_contains_new:
  assumes "lower_splits_at_space lw"
  shows "joined_contains lw (ts @ [before @ CHR '' '' # x @ CHR '' '' # after]) x"
proof -
  have split: "lw (xs @ CHR '' '' # ys) = lw xs @ CHR '' '' # lw ys" for xs ys
    using assms unfolding lower_splits_at_space_def by blast
  have "lw (before @ CHR '' '' # x @ CHR '' '' # after) =
          lw before @ CHR '' '' # lw (x @ CHR '' '' # after)"
    by (rule split)
  also have "\<dots> = (lw before @ '' '') @ lw x @ (CHR '' '' # lw after)"
    by (simp add: split)
  finally have "sublist (lw x) (lw (before @ CHR '' '' # x @ CHR '' '' # after))"
    by (simp only: sublist_appendI)
  with assms show ?thesis by (rule joined_contains_last)
qed

lemma task_contains_joined:
  assumes "lower_splits_at_space lw" "task_contains lw ts x"
  shows "joined_contains lw ts x"
  using assms(2)
proof (induction ts rule: rev_induct)
  case Nil
  then show ?case by (simp add: task_contains_def)
next
  case (snoc t ts)
  show ?case
  proof (cases "sublist (lw x) (lw t)")
    case True
    with assms(1) show ?thesis by (rule joined_contains_last)
  next
    case False
    hence "task_contains lw ts x" using snoc.prems by (simp add: task_contains_def py_in_def)
    hence "joined_contains lw ts x" by (rule snoc.IH)
    with assms(1) show ?thesis by (rule joined_contains_snoc)
  qed
qed

lemma subseq_set: "subseq xs ys \<Longrightarrow> set xs \<subseteq> set ys"
  by (induction rule: list_emb.induct) auto

lemma joined_contains_same_lower:
  "lw k = lw x \<Longrightarrow> joined_contains lw ts x \<Longrightarrow> joined_contains lw ts k"
  by (simp add: joined_contains_def)

lemma foldl_add_task:
  assumes lw: "lower_splits_at_space lw"
    and step: "\<And>ts x. step ts x =
                 (if joined_contains lw ts x then ts
                  else ts @ [before @ CHR '' '' # x @ CHR '' '' # after])"
  shows "\<exists>ks. loop_result lw (\<lambda>x. before @ CHR '' '' # x @ CHR '' '' # after) ts xs ks
               (foldl step ts xs)"
proof (induction xs arbitrary: ts)
  case Nil
  have "loop_result lw (\<lambda>x. before @ CHR '' '' # x @ CHR '' '' # after) ts [] [] (foldl step ts [])"
    by (simp add: loop_result_def)
  thus ?case by (rule exI)
next
  case (Cons x xs)
  let ?mk = "\<lambda>x. before @ CHR '' '' # x @ CHR '' '' # after"
  let ?r = "foldl step (step ts x) xs"
  obtain ks where "loop_result lw ?mk (step ts x) xs ks ?r"
    using Cons [of "step ts x"] by (rule exE)
  hence lr: "subseq ks xs \<and> ?r = step ts x @ map ?mk ks \<and> distinct (map lw ks) \<and>
     (\<forall>k\<in>set ks. \<not> joined_contains lw (step ts x) k) \<and>
     (\<forall>y\<in>set xs. joined_contains lw ?r y)"
    unfolding loop_result_def .
  note ks = lr [THEN conjunct1] lr [THEN conjunct2, THEN conjunct1]
    lr [THEN conjunct2, THEN conjunct2, THEN conjunct1]
    lr [THEN conjunct2, THEN conjunct2, THEN conjunct2, THEN conjunct1]
    lr [THEN conjunct2, THEN conjunct2, THEN conjunct2, THEN conjunct2]
  have seen: "joined_contains lw (step ts x) x"
  proof (cases "joined_contains lw ts x")
    case True
    thus ?thesis by (simp add: step)
  next
    case False
    have "joined_contains lw (ts @ [?mk x]) x" using lw by (rule joined_contains_new)
    thus ?thesis using False by (simp add: step)
  qed
  have "joined_contains lw (step ts x @ map ?mk ks) x"
    using lw seen by (rule joined_contains_append)
  hence x_end: "joined_contains lw ?r x" by (simp only: ks(2))
  have all_end: "\<forall>y\<in>set (x # xs). joined_contains lw (foldl step ts (x # xs)) y"
    using x_end ks(5) by simp
  show ?case
  proof (cases "joined_contains lw ts x")
    case True
    hence s: "step ts x = ts" by (simp add: step)
    have 1: "subseq ks (x # xs)" using ks(1) by (rule list_emb_Cons)
    have 2: "foldl step ts (x # xs) = ts @ map ?mk ks" using ks(2) s by simp
    have 3: "\<forall>k\<in>set ks. \<not> joined_contains lw ts k" using ks(4) s by simp
    have "loop_result lw ?mk ts (x # xs) ks (foldl step ts (x # xs))"
      unfolding loop_result_def using 1 2 3 ks(3) all_end by (intro conjI)
    thus ?thesis by (rule exI)
  next
    case False
    hence s: "step ts x = ts @ [?mk x]" by (simp add: step)
    have not_x: "lw x \<noteq> lw k" if "k \<in> set ks" for k
    proof
      assume "lw x = lw k"
      hence "lw k = lw x" by (rule sym)
      hence "joined_contains lw (step ts x) k" using seen by (rule joined_contains_same_lower)
      thus False using ks(4) that by blast
    qed
    have not_ts: "\<not> joined_contains lw ts k" if "k \<in> set ks" for k
    proof
      assume "joined_contains lw ts k"
      with lw have "joined_contains lw (ts @ [?mk x]) k" by (rule joined_contains_snoc)
      thus False using ks(4) that s by simp
    qed
    have 1: "subseq (x # ks) (x # xs)" using ks(1) by simp
    have 2: "foldl step ts (x # xs) = ts @ map ?mk (x # ks)" using ks(2) s by simp
    have 3: "distinct (map lw (x # ks))" using ks(3) not_x by auto
    have 4: "\<forall>k\<in>set (x # ks). \<not> joined_contains lw ts k" using False not_ts by simp
    have "loop_result lw ?mk ts (x # xs) (x # ks) (foldl step ts (x # xs))"
      unfolding loop_result_def using 1 2 3 4 all_end by (intro conjI)
    thus ?thesis by (rule exI)
  qed
qed

lemma implement_task_spaces:
  "implement_task = (\<lambda>x. ''Implement'' @ CHR '' '' # x @ CHR '' '' # ''functionality'')"
  by (rule ext) (simp add: implement_task_def)

lemma integrate_task_spaces:
  "integrate_task = (\<lambda>x. ''Integrate'' @ CHR '' '' # x @ CHR '' '' # ''framework'')"
  by (rule ext) (simp add: integrate_task_def)

lemma add_concept_task_alt:
  "add_concept_task lw ts x = (if joined_contains lw ts x then ts else ts @ [implement_task x])"
  by (simp add: add_concept_task_def joined_contains_def implement_task_def)

lemma add_framework_task_alt:
  "add_framework_task lw ts x = (if joined_contains lw ts x then ts else ts @ [integrate_task x])"
  by (simp add: add_framework_task_def joined_contains_def integrate_task_def)

lemma foldl_add_concept_task:
  assumes "lower_splits_at_space lw"
  shows "\<exists>cs. loop_result lw implement_task ts xs cs (foldl (add_concept_task lw) ts xs)"
  unfolding implement_task_spaces
  using assms
proof (rule foldl_add_task)
  fix ts x
  show "add_concept_task lw ts x =
          (if joined_contains lw ts x then ts
           else ts @ [''Implement'' @ CHR '' '' # x @ CHR '' '' # ''functionality''])"
    by (simp add: add_concept_task_alt implement_task_def)
qed

lemma foldl_add_framework_task:
  assumes "lower_splits_at_space lw"
  shows "\<exists>fs. loop_result lw integrate_task ts xs fs (foldl (add_framework_task lw) ts xs)"
  unfolding integrate_task_spaces
  using assms
proof (rule foldl_add_task)
  fix ts x
  show "add_framework_task lw ts x =
          (if joined_contains lw ts x then ts
           else ts @ [''Integrate'' @ CHR '' '' # x @ CHR '' '' # ''framework''])"
    by (simp add: add_framework_task_alt integrate_task_def)
qed

lemma customize_phase_tasks_shape:
  assumes lw: "lower_splits_at_space lw"
  shows "\<exists>cs fs. subseq cs (take 3 (get_default (key_concepts a) [])) \<and>
           subseq fs (take 2 (analysis_frameworks a)) \<and>
           customize_phase_tasks lw base_tasks a n =
             base_tasks @ map implement_task cs @ map integrate_task fs \<and>
           distinct (map lw (cs @ fs)) \<and>
           (\<forall>x\<in>set (cs @ fs). \<not> joined_contains lw base_tasks x)"
proof -
  define concepts where "concepts = take 3 (get_default (key_concepts a) [])"
  define fws where "fws = take 2 (analysis_frameworks a)"
  obtain cs where "loop_result lw implement_task base_tasks concepts cs
      (foldl (add_concept_task lw) base_tasks concepts)"
    using foldl_add_concept_task [OF lw] by (rule exE)
  hence lc: "subseq cs concepts \<and>
    foldl (add_concept_task lw) base_tasks concepts = base_tasks @ map implement_task cs \<and>
    distinct (map lw cs) \<and>
    (\<forall>k\<in>set cs. \<not> joined_contains lw base_tasks k) \<and>
    (\<forall>x\<in>set concepts.
        joined_contains lw (foldl (add_concept_task lw) base_tasks concepts) x)"
    unfolding loop_result_def .
  note cs = lc [THEN conjunct1] lc [THEN conjunct2, THEN conjunct1]
    lc [THEN conjunct2, THEN conjunct2, THEN conjunct1]
    lc [THEN conjunct2, THEN conjunct2, THEN conjunct2, THEN conjunct1]
    lc [THEN conjunct2, THEN conjunct2, THEN conjunct2, THEN conjunct2]
  define mid where "mid = base_tasks @ map implement_task cs"
  obtain fs where "loop_result lw integrate_task mid fws fs
      (foldl (add_framework_task lw) mid fws)"
    using foldl_add_framework_task [OF lw] by (rule exE)
  hence lf: "subseq fs fws \<and>
    foldl (add_framework_task lw) mid fws = mid @ map integrate_task fs \<and>
    distinct (map lw fs) \<and>
    (\<forall>k\<in>set fs. \<not> joined_contains lw mid k) \<and>
    (\<forall>x\<in>set fws. joined_contains lw (foldl (add_framework_task lw) mid fws) x)"
    unfolding loop_result_def .
  note fs = lf [THEN conjunct1] lf [THEN conjunct2, THEN conjunct1]
    lf [THEN conjunct2, THEN conjunct2, THEN conjunct1]
    lf [THEN conjunct2, THEN conjunct2, THEN conjunct2, THEN conjunct1]
  have cs_mid: "joined_contains lw mid c" if "c \<in> set cs" for c
  proof -
    have "c \<in> set concepts" using subseq_set [OF cs(1)] that by (rule subsetD)
    hence "joined_contains lw (foldl (add_concept_task lw) base_tasks concepts) c"
      using cs(5) by blast
    thus ?thesis by (simp only: cs(2) mid_def)
  qed
  have apart: "lw c \<noteq> lw f" if "f \<in> set fs" "c \<in> set cs" for f c
  proof
    assume "lw c = lw f"
    hence "lw f = lw c" by (rule sym)
    hence "joined_contains lw mid f" using cs_mid [OF that(2)] by (rule joined_contains_same_lower)
    thus False using fs(4) that(1) by blast
  qed
  have fs_base: "\<not> joined_contains lw base_tasks f" if "f \<in> set fs" for f
  proof
    assume "joined_contains lw base_tasks f"
    with lw have "joined_contains lw (base_tasks @ map implement_task cs) f"
      by (rule joined_contains_append)
    thus False using fs(4) that by (simp add: mid_def)
  qed
  have 1: "distinct (map lw (cs @ fs))"
    using cs(3) fs(3) apart by auto
  have 2: "\<forall>x\<in>set (cs @ fs). \<not> joined_contains lw base_tasks x"
    using cs(4) fs_base by auto
  have 3: "customize_phase_tasks lw base_tasks a n =
      base_tasks @ map implement_task cs @ map integrate_task fs"
    using cs(2) fs(2)
    by (simp add: customize_phase_tasks_def concepts_def [symmetric] fws_def [symmetric] mid_def)
  have "subseq cs (take 3 (get_default (key_concepts a) [])) \<and>
           subseq fs (take 2 (analysis_frameworks a)) \<and>
           customize_phase_tasks lw base_tasks a n =
             base_tasks @ map implement_task cs @ map integrate_task fs \<and>
           distinct (map lw (cs @ fs)) \<and>
           (\<forall>x\<in>set (cs @ fs). \<not> joined_contains lw base_tasks x)"
    using cs(1) fs(1) 1 2 3 unfolding concepts_def fws_def by (intro conjI)
  thus ?thesis by (intro exI)
qed

text \<open>
  C4, as stated, fails: the source tests the text of all current tasks joined by single
  spaces, so a concept that runs across the end of one task and the start of the next is
  skipped although no task contains it. The rule in the specification's wording appends
  it.
\<close>

theorem joined_text_hides_concept:
  "\<not> task_contains lower [''Text preprocessing pipeline'', ''Basic NLP models'']
       ''pipeline basic'' \<and>
   customize_phase_tasks lower [''Text preprocessing pipeline'', ''Basic NLP models'']
       (concepts_only [''pipeline basic'']) ''Core Component Development'' =
     [''Text preprocessing pipeline'', ''Basic NLP models''] \<and>
   spec_customize_tasks lower [''Text preprocessing pipeline'', ''Basic NLP models'']
       [''pipeline basic''] [] =
     [''Text preprocessing pipeline'', ''Basic NLP models'',
      ''Implement pipeline basic functionality'']"
  by (simp add: task_contains_def customize_phase_tasks_def spec_customize_tasks_def
      spec_add_task_def add_concept_task_def concepts_only_def analysis_frameworks_def str_eval)

text \<open>
  C4, amended. The lower-casing is the library's; the statement needs of it only that it
  lower-cases the text before and the text after a space each on its own. The task list
  of a phase is the template tasks, then tasks for some of the first 3 key concepts in
  their order, then tasks for some of the first 2 frameworks in their order, each in its
  fixed phrasing. The concepts and then the frameworks are taken one by one, and one is
  skipped exactly when the lower-cased text of the current tasks (template tasks and
  those appended so far) joined by single spaces contains its lower-cased text; so it is
  skipped whenever some current task contains it. Over the whole list nothing is
  appended twice: the appended concepts and frameworks are pairwise different, also
  when compared without case, and none of them occurs in the joined template tasks.
\<close>

theorem customize_phase_tasks_joined_text:
  assumes "lower_splits_at_space str_lower"
  shows
  "customize_phase_tasks str_lower base_tasks a n =
     foldl (add_framework_task str_lower)
       (foldl (add_concept_task str_lower) base_tasks (take 3 (get_default (key_concepts a) [])))
       (take 2 (analysis_frameworks a)) \<and>
   add_concept_task str_lower ts x =
     (if joined_contains str_lower ts x then ts else ts @ [implement_task x]) \<and>
   add_framework_task str_lower ts x =
     (if joined_contains str_lower ts x then ts else ts @ [integrate_task x]) \<and>
   (task_contains str_lower ts x \<longrightarrow> joined_contains str_lower ts x) \<and>
   (\<exists>cs fs. subseq cs (take 3 (get_default (key_concepts a) [])) \<and>
            subseq fs (take 2 (analysis_frameworks a)) \<and>
            customize_phase_tasks str_lower base_tasks a n =
              base_tasks @ map implement_task cs @ map integrate_task fs \<and>
            distinct (map str_lower (cs @ fs)) \<and>
            (\<forall>x\<in>set (cs @ fs). \<not> joined_contains str_lower base_tasks x))"
proof (intro conjI)
  show "customize_phase_tasks str_lower base_tasks a n =
     foldl (add_framework_task str_lower)
       (foldl (add_concept_task str_lower) base_tasks (take 3 (get_default (key_concepts a) [])))
       (take 2 (analysis_frameworks a))"
    by (simp only: customize_phase_tasks_def)
  show "add_concept_task str_lower ts x =
     (if joined_contains str_lower ts x then ts else ts @ [implement_task x])"
    by (rule add_concept_task_alt)
  show "add_framework_task str_lower ts x =
     (if joined_contains str_lower ts x then ts else ts @ [integrate_task x])"
    by (rule add_framework_task_alt)
  show "task_contains str_lower ts x \<longrightarrow> joined_contains str_lower ts x"
    using task_contains_joined [OF assms] by (rule impI)
  show "\<exists>cs fs. subseq cs (take 3 (get_default (key_concepts a) [])) \<and>
            subseq fs (take 2 (analysis_frameworks a)) \<and>
            customize_phase_tasks str_lower base_tasks a n =
              base_tasks @ map implement_task cs @ map integrate_task fs \<and>
            distinct (map str_lower (cs @ fs)) \<and>
            (\<forall>x\<in>set (cs @ fs). \<not> joined_contains str_lower base_tasks x)"
    using assms by (rule customize_phase_tasks_shape)
qed

text \<open>
  The scenario of the specification, on ASCII text: a task already mentions
  transformers, the key concepts name Transformers twice and Attention once; only
  Attention is appended.
\<close>

theorem customize_phase_tasks_joined_text_witness:
  "lower_splits_at_space lower \<and>
   task_contains lower [''Fine-tune transformers on the corpus''] ''Transformers'' \<and>
   joined_contains lower [''Fine-tune transformers on the corpus''] ''Transformers'' \<and>
   add_concept_task lower [''Fine-tune transformers on the corpus''] ''Transformers'' =
     [''Fine-tune transformers on the corpus''] \<and>
   customize_phase_tasks lower [''Fine-tune transformers on the corpus'']
       (concepts_only [''Transformers'', ''Transformers'', ''Attention'']) ''Phase'' =
     [''Fine-tune transformers on the corpus'', ''Implement Attention functionality'']"
proof -
  have c: "task_contains lower [''Fine-tune transformers on the corpus''] ''Transformers''"
    by (simp add: task_contains_def str_eval)
  have s: "customize_phase_tasks lower [''Fine-tune transformers on the corpus'']
       (concepts_only [''Transformers'', ''Transformers'', ''Attention'']) ''Phase'' =
     [''Fine-tune transformers on the corpus'', ''Implement Attention functionality'']"
    by (simp add: customize_phase_tasks_def add_concept_task_def concepts_only_def
        analysis_frameworks_def str_eval)
  note t = customize_phase_tasks_joined_text [OF lower_splits_at_space_lower,
        of "[''Fine-tune transformers on the corpus'']"
           "concepts_only [''Transformers'', ''Transformers'', ''Attention'']" "''Phase''"
           "[''Fine-tune transformers on the corpus'']" "''Transformers''"]
  have j: "joined_contains lower [''Fine-tune transformers on the corpus''] ''Transformers''"
    using t [THEN conjunct2, THEN conjunct2, THEN conjunct2, THEN conjunct1] c by (rule mp)
  have "add_concept_task lower [''Fine-tune transformers on the corpus''] ''Transformers'' =
     [''Fine-tune transformers on the corpus'']"
    using t [THEN conjunct2, THEN conjunct1] j by (simp only: if_True)
  thus ?thesis using c j s lower_splits_at_space_lower by (intro conjI)
qed


end
